theory Spec2Isabelle
  imports Main "HOL-Library.AList"
begin

section \<open>Dynamically typed values\<close>

text \<open>
  The variables of a GraphQL request are a \<^verbatim>\<open>map[string]interface{}\<close> decoded by
  \<^verbatim>\<open>encoding/json\<close>. A value of type \<^verbatim>\<open>interface{}\<close> found in it is one of: the nil
  interface (JSON null), a bool, a float64 (kept here by its literal, since no function of
  the package inspects it), a string, a \<^verbatim>\<open>[]interface{}\<close>, a \<^verbatim>\<open>map[string]interface{}\<close>, or,
  once the handler has placed it, a \<^verbatim>\<open>*multipart.FileHeader\<close>.  The root map of a request
  whose operations carry no variables is the nil map, which reads as empty and panics
  when written.

  A Go map is an association list with distinct keys; a pointer to a file header is its
  address.  Maps and slices are references, and \<^verbatim>\<open>set\<close> writes through them; the values
  decoded from JSON form a tree (no container is reachable twice), so writing in place is
  rebuilding the tree along the path.
\<close>

type_synonym file_header = nat

datatype any =
    Nil
  | Bool bool
  | Number string
  | String string
  | File file_header
  | Slice "any list"
  | Map "(string \<times> any) list"
  | NilMap

text \<open>The run-time panics that \<^verbatim>\<open>set\<close> can raise.\<close>

datatype panic =
    InterfaceConversion
  | IndexOutOfRange
  | NilMapAssignment

section \<open>Library functions used by \<^verbatim>\<open>set\<close>\<close>

text \<open>\<^verbatim>\<open>strings.Split(path, ".")\<close>: the substrings between the dots; never the empty list.\<close>

fun Split :: "string \<Rightarrow> string list" where
  "Split [] = [[]]"
| "Split (c # cs) =
     (if c = CHR ''.'' then [] # Split cs
      else (case Split cs of
              [] \<Rightarrow> [[c]]
            | t # ts \<Rightarrow> (c # t) # ts))"

definition digit :: "char \<Rightarrow> bool" where
  "digit c = (c \<in> set ''0123456789'')"

definition digit_val :: "char \<Rightarrow> int" where
  "digit_val c = of_char c - 48"

text \<open>
  \<^verbatim>\<open>regexp.MatchString(`\d+`, p)\<close>: the pattern is not anchored, so it reports whether
  \<^verbatim>\<open>p\<close> contains a match, that is, an ASCII digit anywhere.  The pattern is a constant that
  compiles, so the error result is always nil.
\<close>

definition MatchString_digits :: "string \<Rightarrow> bool" where
  "MatchString_digits p = list_ex digit p"

text \<open>
  \<^verbatim>\<open>strconv.Atoi\<close> for a 64-bit \<^verbatim>\<open>int\<close>, by way of \<^verbatim>\<open>ParseUint\<close> and \<^verbatim>\<open>ParseInt\<close> in base
  10: a character that is not a digit is a syntax error with value 0; a value past the
  range is a range error with the nearest bound as value, reported as soon as the digits
  read so far overflow.
\<close>

datatype num_error = ErrSyntax | ErrRange

definition maxUint64 :: int where
  "maxUint64 = 2 ^ 64 - 1"

fun ParseUint_loop :: "int \<Rightarrow> string \<Rightarrow> int \<times> num_error option" where
  "ParseUint_loop n [] = (n, None)"
| "ParseUint_loop n (c # cs) =
     (if \<not> digit c then (0, Some ErrSyntax)
      else if n * 10 + digit_val c > maxUint64 then (maxUint64, Some ErrRange)
      else ParseUint_loop (n * 10 + digit_val c) cs)"

definition ParseUint :: "string \<Rightarrow> int \<times> num_error option" where
  "ParseUint s = (if s = [] then (0, Some ErrSyntax) else ParseUint_loop 0 s)"

definition ParseInt :: "string \<Rightarrow> int \<times> num_error option" where
  "ParseInt s =
     (case s of
        [] \<Rightarrow> (0, Some ErrSyntax)
      | c # cs \<Rightarrow>
          (let neg = (c = CHR ''-'');
               r = ParseUint (if c = CHR ''+'' \<or> c = CHR ''-'' then cs else s);
               un = fst r
           in if snd r = Some ErrSyntax then (0, Some ErrSyntax)
              else if \<not> neg \<and> un \<ge> 2 ^ 63 then (2 ^ 63 - 1, Some ErrRange)
              else if neg \<and> un > 2 ^ 63 then (- (2 ^ 63), Some ErrRange)
              else (if neg then - un else un, None)))"

definition Atoi :: "string \<Rightarrow> int \<times> num_error option" where
  "Atoi s = ParseInt s"

section \<open>Placing a value: \<^verbatim>\<open>set\<close>\<close>

text \<open>
  A part of a path is a string or an int (the elements of \<^verbatim>\<open>parts []interface{}\<close>).
  The first loop of \<^verbatim>\<open>set\<close> turns each token into a part: an int when the token
  matches the pattern, with the value \<^verbatim>\<open>Atoi\<close> gives and its error dropped.
\<close>

datatype part = PString string | PInt int

definition to_part :: "string \<Rightarrow> part" where
  "to_part p = (if MatchString_digits p then PInt (fst (Atoi p)) else PString p)"

text \<open>
  The second loop of \<^verbatim>\<open>set\<close>, over \<^verbatim>\<open>parts[1:]\<close>, with \<^verbatim>\<open>m\<close> the cursor.  The test
  \<^verbatim>\<open>last\<close> holds exactly at the final part.  Every type assertion is the unchecked form
  and panics when the cursor has another dynamic type; indexing a slice out of its bounds
  panics; writing to the nil map panics; reading a key that a map lacks (or any key of the
  nil map) gives the nil interface.  The result is the panic, or the root after the
  write.
\<close>

fun walk :: "any \<Rightarrow> any \<Rightarrow> part list \<Rightarrow> panic + any" where
  "walk v m [] = Inr m"
| "walk v m (PString idx # ps) =
     (case m of
        Map kvs \<Rightarrow>
          (if ps = [] then Inr (Map (AList.update idx v kvs))
           else (case map_of kvs idx of
                   None \<Rightarrow> (case walk v Nil ps of Inl e \<Rightarrow> Inl e | Inr x \<Rightarrow> Inr m)
                 | Some child \<Rightarrow>
                     (case walk v child ps of
                        Inl e \<Rightarrow> Inl e
                      | Inr child' \<Rightarrow> Inr (Map (AList.update idx child' kvs)))))
      | NilMap \<Rightarrow>
          (if ps = [] then Inl NilMapAssignment
           else (case walk v Nil ps of Inl e \<Rightarrow> Inl e | Inr x \<Rightarrow> Inr m))
      | _ \<Rightarrow> Inl InterfaceConversion)"
| "walk v m (PInt idx # ps) =
     (case m of
        Slice xs \<Rightarrow>
          (if 0 \<le> idx \<and> idx < int (length xs) then
             (if ps = [] then Inr (Slice (xs[nat idx := v]))
              else (case walk v (xs ! nat idx) ps of
                      Inl e \<Rightarrow> Inl e
                    | Inr child' \<Rightarrow> Inr (Slice (xs[nat idx := child']))))
           else Inl IndexOutOfRange)
      | _ \<Rightarrow> Inl InterfaceConversion)"

text \<open>
  The outcome of a call of \<^verbatim>\<open>set\<close>: it panics, it returns an error (before any write), or
  it returns nil with the root as the writes left it.
\<close>

datatype set_result =
    Panicked panic
  | Failed string
  | Done any

definition returns_error :: "set_result \<Rightarrow> bool" where
  "returns_error r = (case r of Failed e \<Rightarrow> True | _ \<Rightarrow> False)"

definition set_leaf :: "any \<Rightarrow> any \<Rightarrow> string \<Rightarrow> set_result" where
  "set_leaf v m path =
     (let parts = map to_part (Split path)
      in if length parts = 0 then Failed ''empty path found''
         else if length parts \<ge> 1 \<and> parts ! 0 \<noteq> PString ''variables''
           then Failed ''first part of path is supposed to be variables''
         else (case walk v m (drop 1 parts) of
                 Inl p \<Rightarrow> Panicked p
               | Inr m' \<Rightarrow> Done m'))"

section \<open>Contexts and context providers\<close>

text \<open>
  A \<^verbatim>\<open>context.Context\<close> is the chain of \<^verbatim>\<open>WithValue\<close> calls over \<^verbatim>\<open>Background\<close>, the
  most recent first; \<^verbatim>\<open>Value\<close> finds the most recent value of a key and is nil when
  there is none.  Keys compare by dynamic type and value: a key is a string or a value of
  some other type.  What the handler reads from a \<^verbatim>\<open>*gin.Context\<close> is the outcome of
  binding a fresh request structure (the error, if any, and the structure as binding left
  it), the text fields of the posted form and its file parts (error, nil header or
  header).  A pointer to a \<^verbatim>\<open>gin.Context\<close> is \<^verbatim>\<open>None\<close> when nil.
\<close>

record GraphQLRequestParams =
  RequestString :: string
  VariableValues :: any
  OperationName :: string

record GraphQLRequest = GraphQLRequestParams +
  OperationsString :: string
  MapString :: string

record gin_Context =
  ShouldBind :: "string option \<times> GraphQLRequest"
  GetPostForm :: "string \<Rightarrow> string option"
  FormFile :: "string \<Rightarrow> string + file_header option"

datatype key = StringKey string | OtherKey nat

datatype ctx_value =
    NoValue
  | GinContextPtr "gin_Context option"
  | IntValue int
  | StringValue string

type_synonym Context = "(key \<times> ctx_value) list"

definition Background :: Context where
  "Background = []"

definition WithValue :: "Context \<Rightarrow> key \<Rightarrow> ctx_value \<Rightarrow> Context" where
  "WithValue ctx k v = (k, v) # ctx"

definition Value :: "Context \<Rightarrow> key \<Rightarrow> ctx_value" where
  "Value ctx k = (case map_of ctx k of None \<Rightarrow> NoValue | Some v \<Rightarrow> v)"

type_synonym ContextProviderFn = "gin_Context option \<Rightarrow> Context \<Rightarrow> Context"

definition GinContextKey :: key where
  "GinContextKey = StringKey ''GinContext''"

definition GinContextProvider :: ContextProviderFn where
  "GinContextProvider c ctx = WithValue ctx GinContextKey (GinContextPtr c)"

text \<open>The checked type assertion: the pointer stored under the key, or nil.\<close>

definition GetGinContext :: "Context \<Rightarrow> gin_Context option" where
  "GetGinContext ctx =
     (case Value ctx GinContextKey of
        GinContextPtr ginContext \<Rightarrow> ginContext
      | _ \<Rightarrow> None)"

section \<open>The application and its handler\<close>

text \<open>
  The schema is opaque to the handler (\<^verbatim>\<open>New\<close> registers the \<^verbatim>\<open>Upload\<close> scalar in it,
  inside the engine's own data).  \<^verbatim>\<open>Handler\<close> appends its providers to the list of the
  application it is called on, and the function it returns reads that list through the
  pointer when a request arrives: \<^verbatim>\<open>Handler\<close> below is the application after the call,
  \<^verbatim>\<open>HandlerFunc\<close> the returned function, given the application as it is at the request.
\<close>

record 's GraphQLApp =
  Schema :: 's
  ContextProviders :: "ContextProviderFn list"

definition New :: "'s \<Rightarrow> ContextProviderFn list \<Rightarrow> 's GraphQLApp" where
  "New schema contextProviders =
     \<lparr>Schema = schema, ContextProviders = [GinContextProvider] @ contextProviders\<rparr>"

definition Handler :: "'s GraphQLApp \<Rightarrow> ContextProviderFn list \<Rightarrow> 's GraphQLApp" where
  "Handler app contextProviders =
     app\<lparr>ContextProviders := ContextProviders app @ contextProviders\<rparr>"

definition graphqlErrorReply :: "string \<Rightarrow> string \<Rightarrow> any" where
  "graphqlErrorReply message err =
     Map [(''errors'', Slice [Map [(''message'', String (message @ '' ('' @ err @ '')''))]])]"

text \<open>
  The engine's parameters, and what a request makes the handler do, in order: abort with
  an error status, call the engine, write a JSON reply with a status, or panic.
\<close>

record 's Params =
  Params_Schema :: 's
  Params_RequestString :: string
  Params_OperationName :: string
  Params_VariableValues :: any
  Params_Context :: Context

datatype 'r body = ErrorReply any | Result 'r

datatype ('s, 'r) event =
    AbortWithError nat string
  | Do "'s Params"
  | JSON nat "'r body"
  | Panic panic

definition StatusOK :: nat where
  "StatusOK = 200"

definition StatusInternalServerError :: nat where
  "StatusInternalServerError = 500"

text \<open>
  What the handler calls outside the package: \<^verbatim>\<open>json.Unmarshal\<close> of the operations and of
  the map (the error, or the decoded value), and \<^verbatim>\<open>graphql.Do\<close>.  Go leaves the order of
  a \<^verbatim>\<open>range\<close> over a map open: the decoded upload map is listed in the order its range
  visits it, and \<^verbatim>\<open>range_variables\<close> and \<^verbatim>\<open>range_uploads\<close> give the order in which the
  two maps the handler builds are visited.
\<close>

record ('s, 'r) runtime =
  Unmarshal_operations :: "string \<Rightarrow> string + GraphQLRequestParams"
  Unmarshal_map :: "string \<Rightarrow> string + (string \<times> string list) list"
  range_variables :: "(string \<times> string list) list \<Rightarrow> (string \<times> string list) list"
  range_uploads :: "(file_header \<times> string list) list \<Rightarrow> (file_header \<times> string list) list"
  graphql_Do :: "'s Params \<Rightarrow> 'r"

text \<open>
  The loop that collects the form data of the upload map.  A field with a text value
  is filed in \<^verbatim>\<open>variables\<close> under that value; otherwise its file part is looked up, an
  error ends the request, and a header is filed in \<^verbatim>\<open>uploads\<close> under its pointer.
\<close>

fun collect ::
  "gin_Context \<Rightarrow> (string \<times> string list) list \<Rightarrow>
   (file_header \<times> string list) list \<Rightarrow> (string \<times> string list) list \<Rightarrow>
   string + (file_header \<times> string list) list \<times> (string \<times> string list) list" where
  "collect c [] uploads variables = Inr (uploads, variables)"
| "collect c ((key, path) # rest) uploads variables =
     (case GetPostForm c key of
        Some v \<Rightarrow> collect c rest uploads (AList.update v path variables)
      | None \<Rightarrow>
          (case FormFile c key of
             Inl err \<Rightarrow> Inl err
           | Inr (Some fileHeader) \<Rightarrow> collect c rest (AList.update fileHeader path uploads) variables
           | Inr None \<Rightarrow> collect c rest uploads variables))"

text \<open>The inner loop over the paths of one value, and the outer loop over a map.\<close>

fun set_paths :: "any \<Rightarrow> any \<Rightarrow> string list \<Rightarrow> set_result" where
  "set_paths v m [] = Done m"
| "set_paths v m (path # paths) =
     (case set_leaf v m path of
        Done m' \<Rightarrow> set_paths v m' paths
      | Failed err \<Rightarrow> Failed err
      | Panicked p \<Rightarrow> Panicked p)"

fun set_all :: "('k \<Rightarrow> any) \<Rightarrow> any \<Rightarrow> ('k \<times> string list) list \<Rightarrow> set_result" where
  "set_all wrap m [] = Done m"
| "set_all wrap m ((v, paths) # rest) =
     (case set_paths (wrap v) m paths of
        Done m' \<Rightarrow> set_all wrap m' rest
      | Failed err \<Rightarrow> Failed err
      | Panicked p \<Rightarrow> Panicked p)"

text \<open>
  The block of the handler that runs when both \<^verbatim>\<open>map\<close> and \<^verbatim>\<open>operations\<close> are given.
  It ends with an error reply (and the handler returns), with a panic, or with the request
  data updated.
\<close>

datatype assembled =
    Replied any
  | Panics panic
  | Assembled GraphQLRequest

definition assemble :: "('s, 'r) runtime \<Rightarrow> gin_Context \<Rightarrow> GraphQLRequest \<Rightarrow> assembled" where
  "assemble rt c graphqlRequest =
     (case Unmarshal_operations rt (OperationsString graphqlRequest) of
        Inl err \<Rightarrow> Replied (graphqlErrorReply ''invalid operations string'' err)
      | Inr graphqlOperations \<Rightarrow>
     (case Unmarshal_map rt (MapString graphqlRequest) of
        Inl err \<Rightarrow> Replied (graphqlErrorReply ''invalid map string'' err)
      | Inr variableMap \<Rightarrow>
     (case collect c variableMap [] [] of
        Inl err \<Rightarrow> Replied (graphqlErrorReply ''invalid file upload'' err)
      | Inr (uploads, variables) \<Rightarrow>
     (let req = graphqlRequest
            \<lparr>RequestString := RequestString graphqlOperations,
             OperationName := OperationName graphqlOperations,
             VariableValues := VariableValues graphqlOperations\<rparr>
      in case set_all String (VariableValues req) (range_variables rt variables) of
           Failed err \<Rightarrow> Replied (graphqlErrorReply ''could not set variable'' err)
         | Panicked p \<Rightarrow> Panics p
         | Done m \<Rightarrow>
             (case set_all File m (range_uploads rt uploads) of
                Failed err \<Rightarrow> Replied (graphqlErrorReply ''could not set variable'' err)
              | Panicked p \<Rightarrow> Panics p
              | Done m' \<Rightarrow> Assembled (req\<lparr>VariableValues := m'\<rparr>))))))"

text \<open>The loop that builds the resolver context.\<close>

fun run_providers :: "ContextProviderFn list \<Rightarrow> gin_Context option \<Rightarrow> Context \<Rightarrow> Context" where
  "run_providers [] c ctx = ctx"
| "run_providers (provider # rest) c ctx = run_providers rest c (provider c ctx)"

text \<open>The end of the handler: context, parameters, engine, reply.\<close>

definition execute ::
  "('s, 'r) runtime \<Rightarrow> 's GraphQLApp \<Rightarrow> gin_Context \<Rightarrow> GraphQLRequest \<Rightarrow> ('s, 'r) event list" where
  "execute rt app c graphqlRequest =
     (let ctx = run_providers (ContextProviders app) (Some c) Background;
          params = \<lparr>Params_Schema = Schema app,
                    Params_RequestString = RequestString graphqlRequest,
                    Params_OperationName = OperationName graphqlRequest,
                    Params_VariableValues = VariableValues graphqlRequest,
                    Params_Context = ctx\<rparr>
      in [Do params, JSON StatusOK (Result (graphql_Do rt params))])"

text \<open>
  The function \<^verbatim>\<open>Handler\<close> returns.  After a failed bind it calls \<^verbatim>\<open>AbortWithError\<close> and
  goes on: the source has no \<^verbatim>\<open>return\<close> there.
\<close>

definition bind_events :: "gin_Context \<Rightarrow> ('s, 'r) event list" where
  "bind_events c =
     (case fst (ShouldBind c) of
        None \<Rightarrow> []
      | Some err \<Rightarrow> [AbortWithError StatusInternalServerError err])"

definition HandlerFunc ::
  "('s, 'r) runtime \<Rightarrow> 's GraphQLApp \<Rightarrow> gin_Context \<Rightarrow> ('s, 'r) event list" where
  "HandlerFunc rt app c =
     (let graphqlRequest = snd (ShouldBind c)
      in if length (MapString graphqlRequest) > 0 \<and> length (OperationsString graphqlRequest) > 0
         then (case assemble rt c graphqlRequest of
                 Replied reply \<Rightarrow> bind_events c @ [JSON StatusOK (ErrorReply reply)]
               | Panics p \<Rightarrow> bind_events c @ [Panic p]
               | Assembled req \<Rightarrow> bind_events c @ execute rt app c req)
         else bind_events c @ execute rt app c graphqlRequest)"

section \<open>The cursor of \<^verbatim>\<open>set\<close>\<close>

text \<open>
  A part fits a value when the value has the type the part's assertion names: a map
  (nil or not) for a string, a slice for an int.  The cursor after some parts is the value
  that the reads of the loop reach from the root, when they all succeed.
\<close>

definition fits :: "any \<Rightarrow> part \<Rightarrow> bool" where
  "fits m p =
     (case p of
        PString idx \<Rightarrow> (case m of Map kvs \<Rightarrow> True | NilMap \<Rightarrow> True | _ \<Rightarrow> False)
      | PInt idx \<Rightarrow> (case m of Slice xs \<Rightarrow> True | _ \<Rightarrow> False))"

fun cursor :: "any \<Rightarrow> part list \<Rightarrow> any option" where
  "cursor m [] = Some m"
| "cursor m (PString idx # ps) =
     (case m of
        Map kvs \<Rightarrow> cursor (case map_of kvs idx of None \<Rightarrow> Nil | Some child \<Rightarrow> child) ps
      | NilMap \<Rightarrow> cursor Nil ps
      | _ \<Rightarrow> None)"
| "cursor m (PInt idx # ps) =
     (case m of
        Slice xs \<Rightarrow>
          (if 0 \<le> idx \<and> idx < int (length xs) then cursor (xs ! nat idx) ps else None)
      | _ \<Rightarrow> None)"

section \<open>What the engine is given\<close>

text \<open>The contexts and the variables of the engine calls of a run, in order.\<close>

definition engine_contexts :: "('s, 'r) event list \<Rightarrow> Context list" where
  "engine_contexts es =
     concat (map (\<lambda>e. case e of Do p \<Rightarrow> [Params_Context p] | _ \<Rightarrow> []) es)"

definition engine_variables :: "('s, 'r) event list \<Rightarrow> any list" where
  "engine_variables es =
     concat (map (\<lambda>e. case e of Do p \<Rightarrow> [Params_VariableValues p] | _ \<Rightarrow> []) es)"

section \<open>Example requests\<close>

text \<open>
  The requests of the package's tests, as the handler sees them.  A JSON post binds its
  body and has no form.  A multipart post binds only \<^verbatim>\<open>operations\<close> and \<^verbatim>\<open>map\<close>; a field
  name with no file part gives \<^verbatim>\<open>http.ErrMissingFile\<close>.  The example runtime decodes to
  given values, visits the handler's maps in the order they were filled, and has an engine
  with nothing to report.  The counting provider stores under \<^verbatim>\<open>count\<close> how many times it
  has run on the context.
\<close>

definition zero_request :: GraphQLRequest where
  "zero_request =
     \<lparr>RequestString = [], VariableValues = NilMap, OperationName = [],
      OperationsString = [], MapString = []\<rparr>"

definition json_request :: "string \<Rightarrow> any \<Rightarrow> string \<Rightarrow> gin_Context" where
  "json_request query variables operationName =
     \<lparr>ShouldBind = (None, \<lparr>RequestString = query, VariableValues = variables,
                            OperationName = operationName,
                            OperationsString = [], MapString = []\<rparr>),
      GetPostForm = (\<lambda>key. None),
      FormFile = (\<lambda>key. Inl ''request Content-Type isn't multipart/form-data'')\<rparr>"

definition multipart_request ::
  "string \<Rightarrow> string \<Rightarrow> (string \<times> string) list \<Rightarrow> (string \<times> file_header) list
   \<Rightarrow> gin_Context" where
  "multipart_request operations mapping values files =
     \<lparr>ShouldBind = (None, zero_request\<lparr>OperationsString := operations, MapString := mapping\<rparr>),
      GetPostForm = map_of values,
      FormFile = (\<lambda>key. case map_of files key of
                            None \<Rightarrow> Inl ''http: no such file''
                          | Some fileHeader \<Rightarrow> Inr (Some fileHeader))\<rparr>"

definition upload_operations :: "any \<Rightarrow> GraphQLRequestParams" where
  "upload_operations variables =
     \<lparr>RequestString = ''mutation'', VariableValues = variables, OperationName = ''uploadFile''\<rparr>"

definition decoding ::
  "string + GraphQLRequestParams \<Rightarrow> string + (string \<times> string list) list
   \<Rightarrow> (unit, unit) runtime" where
  "decoding operations mapping =
     \<lparr>Unmarshal_operations = (\<lambda>s. operations),
      Unmarshal_map = (\<lambda>s. mapping),
      range_variables = (\<lambda>m. m),
      range_uploads = (\<lambda>m. m),
      graphql_Do = (\<lambda>p. ())\<rparr>"

definition count_provider :: ContextProviderFn where
  "count_provider c ctx =
     WithValue ctx (StringKey ''count'')
       (IntValue (case Value ctx (StringKey ''count'') of IntValue n \<Rightarrow> n + 1 | _ \<Rightarrow> 1))"

section \<open>Properties of \<^verbatim>\<open>set\<close>\<close>

lemmas eval_defs =
  to_part_def MatchString_digits_def digit_def Atoi_def ParseInt_def ParseUint_def
  digit_val_def maxUint64_def

lemmas fixture_defs =
  multipart_request_def json_request_def zero_request_def upload_operations_def
  decoding_def engine_variables_def

lemmas handler_defs =
  HandlerFunc_def bind_events_def execute_def assemble_def New_def Handler_def
  GinContextProvider_def GinContextKey_def WithValue_def Value_def Background_def
  StatusOK_def StatusInternalServerError_def graphqlErrorReply_def

lemma Split_not_empty: "Split s \<noteq> []"
  by (induction s) (auto split: list.splits)

lemma walk_unfit: "\<not> fits m p \<Longrightarrow> walk v m (p # ps) = Inl InterfaceConversion"
  by (cases p; cases m) (simp_all add: fits_def)

text \<open>
  A part that does not fit the value at the cursor makes the walk panic, wherever on the
  path it stands.
\<close>

lemma walk_mismatch:
  "i < length ps \<Longrightarrow> cursor m (take i ps) = Some x \<Longrightarrow> \<not> fits x (ps ! i)
   \<Longrightarrow> walk v m ps = Inl InterfaceConversion"
proof (induction ps arbitrary: m i)
  case Nil
  then show ?case by simp
next
  case (Cons p ps)
  show ?case
  proof (cases i)
    case 0
    with Cons.prems show ?thesis by (simp add: walk_unfit)
  next
    case (Suc j)
    with Cons.prems have j: "j < length ps" and nf: "\<not> fits x (ps ! j)"
      and cur: "cursor m (p # take j ps) = Some x" by simp_all
    from j have ne: "ps \<noteq> []" by auto
    show ?thesis
    proof (cases p)
      case (PString idx)
      show ?thesis
      proof (cases m)
        case (Map kvs)
        show ?thesis
        proof (cases "map_of kvs idx")
          case None
          with cur PString Map have "cursor Nil (take j ps) = Some x" by simp
          from Cons.IH[OF j this nf] show ?thesis using PString Map None ne by simp
        next
          case (Some child)
          with cur PString Map have "cursor child (take j ps) = Some x" by simp
          from Cons.IH[OF j this nf] show ?thesis using PString Map Some ne by simp
        qed
      next
        case NilMap
        with cur PString have "cursor Nil (take j ps) = Some x" by simp
        from Cons.IH[OF j this nf] show ?thesis using PString NilMap ne by simp
      qed (use PString in simp_all)
    next
      case (PInt idx)
      show ?thesis
      proof (cases m)
        case (Slice xs)
        show ?thesis
        proof (cases "0 \<le> idx \<and> idx < int (length xs)")
          case True
          with cur PInt Slice have "cursor (xs ! nat idx) (take j ps) = Some x" by simp
          from Cons.IH[OF j this nf] show ?thesis using PInt Slice True ne by simp
        next
          case False
          with cur PInt Slice show ?thesis by simp
        qed
      qed (use PInt in simp_all)
    qed
  qed
qed

lemma set_mismatch_panics:
  assumes "map to_part (Split path) = PString ''variables'' # ps"
    and "i < length ps"
    and "cursor m (take i ps) = Some x"
    and "\<not> fits x (ps ! i)"
  shows "set_leaf v m path = Panicked InterfaceConversion"
  using assms walk_mismatch[of i ps m x v]
  by (simp add: set_leaf_def Let_def)

lemma parts_files_name:
  "map to_part (Split ''variables.files.name'') =
     PString ''variables'' # [PString ''files'', PString ''name'']"
  by (simp add: eval_defs)

text \<open>
  C1.  The code does not do what the claim says.  With the variables \<^verbatim>\<open>{"files": [null]}\<close>
  and the path \<^verbatim>\<open>variables.files.name\<close>, the field name \<^verbatim>\<open>name\<close> meets the slice under
  \<^verbatim>\<open>files\<close>: the part does not fit the value at the cursor.  The call of \<^verbatim>\<open>set\<close> returns
  no error; its unchecked type assertion panics, whatever the value to place.  (By
  \<open>set_mismatch_panics\<close> the same holds at every path and root where a part does not fit.)
\<close>

theorem set_mismatch_is_panic:
  "cursor (Map [(''files'', Slice [Nil])]) (take 1 [PString ''files'', PString ''name''])
     = Some (Slice [Nil])
   \<and> \<not> fits (Slice [Nil]) ([PString ''files'', PString ''name''] ! 1)
   \<and> set_leaf v (Map [(''files'', Slice [Nil])]) ''variables.files.name''
     = Panicked InterfaceConversion
   \<and> \<not> returns_error (set_leaf v (Map [(''files'', Slice [Nil])]) ''variables.files.name'')"
proof -
  have b: "(1::nat) < length [PString ''files'', PString ''name'']" by simp
  have c: "cursor (Map [(''files'', Slice [Nil])]) (take 1 [PString ''files'', PString ''name''])
      = Some (Slice [Nil])"
    by simp
  have d: "\<not> fits (Slice [Nil]) ([PString ''files'', PString ''name''] ! 1)"
    by (simp add: fits_def)
  from set_mismatch_panics[OF parts_files_name b c d, of v] c d show ?thesis
    by (simp add: returns_error_def)
qed

text \<open>
  C2.  The code does not do what the claim says.  The token \<^verbatim>\<open>file2\<close> contains a digit, so
  the unanchored pattern matches it and it becomes an index; \<^verbatim>\<open>Atoi\<close> fails on it and the
  index is 0.  Placing a value at \<^verbatim>\<open>variables.file2\<close> in \<^verbatim>\<open>{"file2": null}\<close> then indexes
  the root map as a slice and panics.
\<close>

theorem token_with_digit_is_index:
  "to_part ''file2'' = PInt 0
   \<and> set_leaf v (Map [(''file2'', Nil)]) ''variables.file2'' = Panicked InterfaceConversion"
  by (simp add: set_leaf_def eval_defs)

text \<open>
  C5.  The code does not do what the claim says.  The path \<^verbatim>\<open>variables\<close> passes both
  checks, the loop over the remaining parts has nothing to visit, and \<^verbatim>\<open>set\<close> returns nil
  with the root as it was: a success that writes nothing.
\<close>

theorem root_only_path_succeeds: "set_leaf v m ''variables'' = Done m"
  by (simp add: set_leaf_def eval_defs)

section \<open>Properties of the context\<close>

text \<open>
  C10.  \<^verbatim>\<open>GetGinContext\<close> is a total function of the context.  When the context holds a
  pointer to a request under the reserved key, that pointer is returned; so after
  \<^verbatim>\<open>GinContextProvider\<close> it is the pointer that was stored.  When the key is absent, or
  holds a value that is no such pointer, the result is nil.
\<close>

theorem GetGinContext_total:
  "(Value ctx GinContextKey = GinContextPtr p \<longrightarrow> GetGinContext ctx = p)
   \<and> GetGinContext (GinContextProvider c ctx) = c
   \<and> (map_of ctx GinContextKey = None \<longrightarrow> GetGinContext ctx = None)
   \<and> ((\<forall>q. Value ctx GinContextKey \<noteq> GinContextPtr q) \<longrightarrow> GetGinContext ctx = None)"
  by (auto simp: GetGinContext_def GinContextProvider_def WithValue_def Value_def
      split: ctx_value.splits option.splits)

text \<open>
  C10 at three contexts: the one \<^verbatim>\<open>GinContextProvider\<close> builds for a request, the empty
  one, and one that holds an int under the reserved key.
\<close>

theorem GetGinContext_total_witness:
  "Value (GinContextProvider (Some (json_request [] NilMap [])) Background) GinContextKey
     = GinContextPtr (Some (json_request [] NilMap []))
   \<and> GetGinContext (GinContextProvider (Some (json_request [] NilMap [])) Background)
     = Some (json_request [] NilMap [])
   \<and> map_of Background GinContextKey = None
   \<and> GetGinContext Background = None
   \<and> Value (WithValue Background GinContextKey (IntValue 5)) GinContextKey = IntValue 5
   \<and> GetGinContext (WithValue Background GinContextKey (IntValue 5)) = None"
  using GetGinContext_total[of "GinContextProvider (Some (json_request [] NilMap [])) Background"
          "Some (json_request [] NilMap [])"]
        GetGinContext_total[of Background]
        GetGinContext_total[of "WithValue Background GinContextKey (IntValue 5)"]
  by (simp add: GinContextProvider_def WithValue_def Value_def Background_def)

lemma ContextProviders_foldl_Handler:
  "ContextProviders (foldl Handler app registrations)
   = ContextProviders app @ concat registrations"
  by (induction registrations arbitrary: app) (simp_all add: Handler_def)

lemma run_providers_foldl:
  "run_providers ps c ctx = foldl (\<lambda>ctx provider. provider c ctx) ctx ps"
  by (induction ps arbitrary: ctx) simp_all

lemma Do_in_execute:
  "Do p \<in> set (execute rt app c req) \<Longrightarrow>
   Params_Context p = run_providers (ContextProviders app) (Some c) Background
   \<and> Params_VariableValues p = VariableValues req"
  by (auto simp: execute_def Let_def)

lemma Do_not_in_bind_events: "Do p \<notin> set (bind_events c)"
  by (simp add: bind_events_def split: option.splits)

lemma Do_in_HandlerFunc:
  "Do p \<in> set (HandlerFunc rt app c) \<Longrightarrow>
   Params_Context p = run_providers (ContextProviders app) (Some c) Background"
  by (auto simp: HandlerFunc_def Let_def Do_not_in_bind_events
      split: if_splits assembled.splits dest: Do_in_execute)

text \<open>
  C6, as the claim states it, fails.  Register the handler for two routes with the same
  counting provider, as the tests' \<^verbatim>\<open>setupRouter\<close> does for POST and GET.  Both calls append
  to the one list of the application, so a request runs the provider twice: the engine's
  context holds the count 2, where the fold over the implicit provider and one
  registration's providers gives 1.
\<close>

theorem context_is_fold_counterexample:
  "map (\<lambda>ctx. Value ctx (StringKey ''count''))
     (engine_contexts
        (HandlerFunc (decoding (Inl []) (Inl []))
           (Handler (Handler (New () []) [count_provider]) [count_provider])
           (json_request [] NilMap [])))
     = [IntValue 2]
   \<and> Value (foldl (\<lambda>ctx provider. provider (Some (json_request [] NilMap [])) ctx) Background
              (GinContextProvider # [] @ [count_provider])) (StringKey ''count'')
     = IntValue 1"
  by (simp add: fixture_defs handler_defs count_provider_def engine_contexts_def)

text \<open>
  C6, amended.  For every request that reaches the engine, the context the engine is given
  is the left fold, over the empty context, of the application's provider list as it is
  when the request arrives: the implicit provider that stores the request under the
  reserved key, then the providers given to \<^verbatim>\<open>New\<close>, then the providers given to every call
  of \<^verbatim>\<open>Handler\<close> made on the application so far, in the order of the calls.  A provider runs
  once for each time it stands in that list; with a single call of \<^verbatim>\<open>Handler\<close> this is the
  order of the claim.
\<close>

theorem context_is_fold:
  "Do p \<in> set (HandlerFunc rt (foldl Handler (New schema appProviders) registrations) c) \<Longrightarrow>
   Params_Context p =
     foldl (\<lambda>ctx provider. provider (Some c) ctx) Background
       (GinContextProvider # appProviders @ concat registrations)"
  by (drule Do_in_HandlerFunc)
     (simp add: ContextProviders_foldl_Handler run_providers_foldl New_def)

text \<open>
  The amended C6 at the two registrations of the counterexample: the engine is called,
  and its context is the fold over the implicit provider and both registrations.
\<close>

theorem context_is_fold_witness:
  "Do \<lparr>Params_Schema = (), Params_RequestString = [], Params_OperationName = [],
       Params_VariableValues = NilMap,
       Params_Context =
         [(StringKey ''count'', IntValue 2), (StringKey ''count'', IntValue 1),
          (GinContextKey, GinContextPtr (Some (json_request [] NilMap [])))]\<rparr>
     \<in> set (HandlerFunc (decoding (Inl []) (Inl []))
               (foldl Handler (New () []) [[count_provider], [count_provider]])
               (json_request [] NilMap []))
   \<and> foldl (\<lambda>ctx provider. provider (Some (json_request [] NilMap [])) ctx) Background
        (GinContextProvider # [] @ concat [[count_provider], [count_provider]])
     = [(StringKey ''count'', IntValue 2), (StringKey ''count'', IntValue 1),
        (GinContextKey, GinContextPtr (Some (json_request [] NilMap [])))]"
proof -
  have a: "Do \<lparr>Params_Schema = (), Params_RequestString = [], Params_OperationName = [],
       Params_VariableValues = NilMap,
       Params_Context =
         [(StringKey ''count'', IntValue 2), (StringKey ''count'', IntValue 1),
          (GinContextKey, GinContextPtr (Some (json_request [] NilMap [])))]\<rparr>
     \<in> set (HandlerFunc (decoding (Inl []) (Inl []))
               (foldl Handler (New () []) [[count_provider], [count_provider]])
               (json_request [] NilMap []))"
    by (simp add: fixture_defs handler_defs count_provider_def)
  from context_is_fold[OF a] a show ?thesis by simp
qed

section \<open>Properties of the handler\<close>

text \<open>
  C9.  For every request in which the operations field or the map field is absent
  (empty), the block that assembles the variables is not entered: whatever the decoders
  and the form would give, the handler calls the engine once, with the query, the
  operation name and the variables exactly as binding left them, and replies with the
  engine's result.
\<close>

theorem bypass_assembler:
  assumes "req = snd (ShouldBind c)"
    and "OperationsString req = [] \<or> MapString req = []"
    and "params =
      \<lparr>Params_Schema = Schema app,
       Params_RequestString = RequestString req,
       Params_OperationName = OperationName req,
       Params_VariableValues = VariableValues req,
       Params_Context = run_providers (ContextProviders app) (Some c) Background\<rparr>"
  shows "HandlerFunc rt app c
         = bind_events c @ [Do params, JSON StatusOK (Result (graphql_Do rt params))]"
  using assms by (auto simp: HandlerFunc_def execute_def Let_def)

text \<open>
  C9 at the JSON post of the tests' \<^verbatim>\<open>TestValiablesPOST\<close>: no operations field, and the
  engine is given the posted query, name and variables.
\<close>

theorem bypass_assembler_witness:
  "let c = json_request ''query double ($value: Int) { double(value: $value) }'' (Map [(''value'', Number ''5'')]) ''double''
   in (OperationsString (snd (ShouldBind c)) = [] \<or> MapString (snd (ShouldBind c)) = [])
    \<and> HandlerFunc (decoding (Inl []) (Inl [])) (New () []) c
      = [Do \<lparr>Params_Schema = (),
              Params_RequestString = ''query double ($value: Int) { double(value: $value) }'',
              Params_OperationName = ''double'',
              Params_VariableValues = Map [(''value'', Number ''5'')],
              Params_Context = [(GinContextKey, GinContextPtr (Some c))]\<rparr>,
         JSON StatusOK (Result ())]"
proof -
  have a: "OperationsString (snd (ShouldBind
        (json_request ''query double ($value: Int) { double(value: $value) }'' (Map [(''value'', Number ''5'')]) ''double''))) = []
      \<or> MapString (snd (ShouldBind
        (json_request ''query double ($value: Int) { double(value: $value) }'' (Map [(''value'', Number ''5'')]) ''double''))) = []"
    by (simp add: json_request_def)
  from bypass_assembler[OF refl a refl, of "decoding (Inl []) (Inl [])" "New () []"] a
  show ?thesis
    by (simp add: fixture_defs New_def GinContextProvider_def GinContextKey_def WithValue_def
        Background_def bind_events_def Let_def)
qed

text \<open>
  C8.  For every request that gives both fields: when the operations string does not
  decode, or it does and the map string does not, the handler writes one reply with the
  success status, whose body is the \<^verbatim>\<open>errors\<close> list with one message made of the handler's
  text and the decoder's error; it reads no form field, places nothing and does not call
  the engine.  The format error itself never sets an error status: when binding has
  succeeded the reply is all the handler does.
\<close>

theorem malformed_json_reply:
  assumes "req = snd (ShouldBind c)"
    and "OperationsString req \<noteq> []"
    and "MapString req \<noteq> []"
  shows "(Unmarshal_operations rt (OperationsString req) = Inl err \<longrightarrow>
            HandlerFunc rt app c = bind_events c @
              [JSON StatusOK (ErrorReply (graphqlErrorReply ''invalid operations string'' err))])
       \<and> (Unmarshal_operations rt (OperationsString req) = Inr ops \<longrightarrow>
          Unmarshal_map rt (MapString req) = Inl err \<longrightarrow>
            HandlerFunc rt app c = bind_events c @
              [JSON StatusOK (ErrorReply (graphqlErrorReply ''invalid map string'' err))])
       \<and> (fst (ShouldBind c) = None \<longrightarrow> bind_events c = ([] :: ('s, 'r) event list))
       \<and> graphqlErrorReply message err
         = Map [(''errors'', Slice [Map [(''message'', String (message @ '' ('' @ err @ '')''))]])]"
  using assms
  by (auto simp: HandlerFunc_def assemble_def Let_def bind_events_def graphqlErrorReply_def)

text \<open>
  C8 at two multipart posts: one whose operations string is cut short, one whose map
  string is.
\<close>

theorem malformed_json_reply_witness:
  "(let c = multipart_request ''{'' ''{}'' [] [];
        rt = decoding (Inl ''unexpected end of JSON input'') (Inr [])
    in OperationsString (snd (ShouldBind c)) \<noteq> []
     \<and> MapString (snd (ShouldBind c)) \<noteq> []
     \<and> Unmarshal_operations rt (OperationsString (snd (ShouldBind c)))
       = Inl ''unexpected end of JSON input''
     \<and> fst (ShouldBind c) = None
     \<and> HandlerFunc rt (New () []) c
       = [JSON StatusOK (ErrorReply (Map [(''errors'', Slice [Map [(''message'',
            String ''invalid operations string (unexpected end of JSON input)'')]])]))])
   \<and> (let c = multipart_request ''{}'' ''{'' [] [];
          rt = decoding (Inr (upload_operations NilMap)) (Inl ''unexpected end of JSON input'')
      in OperationsString (snd (ShouldBind c)) \<noteq> []
       \<and> MapString (snd (ShouldBind c)) \<noteq> []
       \<and> Unmarshal_operations rt (OperationsString (snd (ShouldBind c)))
         = Inr (upload_operations NilMap)
       \<and> Unmarshal_map rt (MapString (snd (ShouldBind c))) = Inl ''unexpected end of JSON input''
       \<and> fst (ShouldBind c) = None
       \<and> HandlerFunc rt (New () []) c
         = [JSON StatusOK (ErrorReply (Map [(''errors'', Slice [Map [(''message'',
              String ''invalid map string (unexpected end of JSON input)'')]])]))])"
proof -
  have a: "OperationsString (snd (ShouldBind (multipart_request ''{'' ''{}'' [] []))) \<noteq> []"
    and b: "MapString (snd (ShouldBind (multipart_request ''{'' ''{}'' [] []))) \<noteq> []"
    and a': "OperationsString (snd (ShouldBind (multipart_request ''{}'' ''{'' [] []))) \<noteq> []"
    and b': "MapString (snd (ShouldBind (multipart_request ''{}'' ''{'' [] []))) \<noteq> []"
    by (simp_all add: multipart_request_def zero_request_def)
  from malformed_json_reply[OF refl a b,
      of "decoding (Inl ''unexpected end of JSON input'') (Inr [])"
         "''unexpected end of JSON input''" "New () []"]
    malformed_json_reply[OF refl a' b',
      of "decoding (Inr (upload_operations NilMap)) (Inl ''unexpected end of JSON input'')"
         "''unexpected end of JSON input''" "New () []" "upload_operations NilMap"]
    a b a' b'
  show ?thesis
    by (simp add: fixture_defs graphqlErrorReply_def bind_events_def Let_def)
qed

lemma collect_missing:
  "(key, paths) \<in> set variableMap \<Longrightarrow> GetPostForm c key = None \<Longrightarrow> FormFile c key = Inl err
   \<Longrightarrow> \<exists>e. collect c variableMap uploads variables = Inl e"
proof (induction variableMap arbitrary: uploads variables)
  case Nil
  then show ?case by simp
next
  case (Cons kp rest)
  obtain k p where kp: "kp = (k, p)" by (cases kp)
  show ?case
  proof (cases "k = key")
    case True
    with Cons.prems kp show ?thesis by simp
  next
    case False
    with Cons.prems kp have "(key, paths) \<in> set rest" by auto
    from Cons.IH[OF this Cons.prems(2,3)] kp show ?thesis
      by (auto split: option.splits sum.splits)
  qed
qed

lemma assemble_missing:
  assumes "Unmarshal_operations rt (OperationsString req) = Inr ops"
    and "Unmarshal_map rt (MapString req) = Inr variableMap"
    and "(key, paths) \<in> set variableMap"
    and "GetPostForm c key = None"
    and "FormFile c key = Inl err"
  shows "\<exists>e. assemble rt c req = Replied (graphqlErrorReply ''invalid file upload'' e)"
proof -
  from collect_missing[OF assms(3,4,5)] obtain e where "collect c variableMap [] [] = Inl e"
    by blast
  with assms(1,2)
  have "assemble rt c req = Replied (graphqlErrorReply ''invalid file upload'' e)"
    by (simp add: assemble_def)
  then show ?thesis by blast
qed

text \<open>The block ends with updated request data only when every call of \<^verbatim>\<open>set\<close> returned nil.\<close>

lemma assemble_Assembled:
  assumes "assemble rt c req = Assembled r"
  shows "\<exists>ops variableMap uploads variables m.
           Unmarshal_operations rt (OperationsString req) = Inr ops
         \<and> Unmarshal_map rt (MapString req) = Inr variableMap
         \<and> collect c variableMap [] [] = Inr (uploads, variables)
         \<and> set_all String (VariableValues ops) (range_variables rt variables) = Done m
         \<and> set_all File m (range_uploads rt uploads) = Done (VariableValues r)"
  using assms
  by (auto simp: assemble_def Let_def split: sum.splits prod.splits set_result.splits)

lemma Do_in_HandlerFunc_assembled:
  assumes "req = snd (ShouldBind c)"
    and "OperationsString req \<noteq> []"
    and "MapString req \<noteq> []"
    and "Do p \<in> set (HandlerFunc rt app c)"
  shows "\<exists>r. assemble rt c req = Assembled r \<and> Params_VariableValues p = VariableValues r"
  using assms
  by (auto simp: HandlerFunc_def Let_def Do_not_in_bind_events
      split: assembled.splits dest: Do_in_execute)

text \<open>
  C4.  For every request that gives both fields and whose strings decode: when the upload
  map names a field for which the form has no text value and the lookup of a file part
  fails, the handler replies with the error \<^verbatim>\<open>invalid file upload\<close> (success status, cause
  attached) and does nothing else, so nothing of the variables is to be seen.  And for
  every request that gives both fields, whatever fails: the engine is called only when the
  operations and the map decoded, every field was found, and every call of \<^verbatim>\<open>set\<close>, for
  the text values and then for the files, returned nil; the variables it is given are the
  ones all these calls have produced.  After an error reply or a panic there is no engine
  call.
\<close>

theorem failed_assembly_exposes_nothing:
  assumes "req = snd (ShouldBind c)"
    and "OperationsString req \<noteq> []"
    and "MapString req \<noteq> []"
  shows "(Unmarshal_operations rt (OperationsString req) = Inr ops \<longrightarrow>
          Unmarshal_map rt (MapString req) = Inr variableMap \<longrightarrow>
          (key, paths) \<in> set variableMap \<longrightarrow>
          GetPostForm c key = None \<longrightarrow>
          FormFile c key = Inl err \<longrightarrow>
            (\<exists>e. HandlerFunc rt app c = bind_events c @
                [JSON StatusOK (ErrorReply (graphqlErrorReply ''invalid file upload'' e))]))
       \<and> (\<forall>p. Do p \<in> set (HandlerFunc rt app c) \<longrightarrow>
            (\<exists>ops' variableMap' uploads variables m.
                Unmarshal_operations rt (OperationsString req) = Inr ops'
              \<and> Unmarshal_map rt (MapString req) = Inr variableMap'
              \<and> collect c variableMap' [] [] = Inr (uploads, variables)
              \<and> set_all String (VariableValues ops') (range_variables rt variables) = Done m
              \<and> set_all File m (range_uploads rt uploads) = Done (Params_VariableValues p)))
       \<and> ((\<forall>r. assemble rt c req \<noteq> Assembled r) \<longrightarrow>
            (\<forall>p. Do p \<notin> set (HandlerFunc rt app c)))"
proof (intro conjI impI allI)
  assume "Unmarshal_operations rt (OperationsString req) = Inr ops"
    and "Unmarshal_map rt (MapString req) = Inr variableMap"
    and "(key, paths) \<in> set variableMap"
    and "GetPostForm c key = None"
    and "FormFile c key = Inl err"
  from assemble_missing[OF this] obtain e
    where "assemble rt c req = Replied (graphqlErrorReply ''invalid file upload'' e)" by blast
  with assms show "\<exists>e. HandlerFunc rt app c = bind_events c @
      [JSON StatusOK (ErrorReply (graphqlErrorReply ''invalid file upload'' e))]"
    by (auto simp: HandlerFunc_def Let_def)
next
  fix p assume "Do p \<in> set (HandlerFunc rt app c)"
  from Do_in_HandlerFunc_assembled[OF assms this] obtain r
    where r: "assemble rt c req = Assembled r" "Params_VariableValues p = VariableValues r"
    by blast
  from assemble_Assembled[OF r(1)] r(2)
  show "\<exists>ops' variableMap' uploads variables m.
          Unmarshal_operations rt (OperationsString req) = Inr ops'
        \<and> Unmarshal_map rt (MapString req) = Inr variableMap'
        \<and> collect c variableMap' [] [] = Inr (uploads, variables)
        \<and> set_all String (VariableValues ops') (range_variables rt variables) = Done m
        \<and> set_all File m (range_uploads rt uploads) = Done (Params_VariableValues p)"
    by simp
next
  fix p assume "\<forall>r. assemble rt c req \<noteq> Assembled r"
  with Do_in_HandlerFunc_assembled[OF assms, of p rt app]
  show "Do p \<notin> set (HandlerFunc rt app c)" by blast
qed

text \<open>
  C4 at the single upload of the tests' \<^verbatim>\<open>TestSingleFileUploadPOST\<close>, once with the file
  part left out of the form (the one reply, no engine call), once with it (the engine is
  given the variables with the file's header in place).
\<close>

theorem failed_assembly_exposes_nothing_witness:
  "(let c = multipart_request ''operations'' ''map'' [] [];
        rt = decoding (Inr (upload_operations (Map [(''file'', Nil)])))
                      (Inr [(''file'', [''variables.file''])])
    in OperationsString (snd (ShouldBind c)) \<noteq> []
     \<and> MapString (snd (ShouldBind c)) \<noteq> []
     \<and> Unmarshal_operations rt (OperationsString (snd (ShouldBind c)))
       = Inr (upload_operations (Map [(''file'', Nil)]))
     \<and> Unmarshal_map rt (MapString (snd (ShouldBind c))) = Inr [(''file'', [''variables.file''])]
     \<and> (''file'', [''variables.file'']) \<in> set [(''file'', [''variables.file''])]
     \<and> GetPostForm c ''file'' = None
     \<and> FormFile c ''file'' = Inl ''http: no such file''
     \<and> HandlerFunc rt (New () []) c
       = [JSON StatusOK
            (ErrorReply (graphqlErrorReply ''invalid file upload'' ''http: no such file''))]
     \<and> engine_variables (HandlerFunc rt (New () []) c) = [])
   \<and> (let c = multipart_request ''operations'' ''map'' [] [(''file'', 7)];
          rt = decoding (Inr (upload_operations (Map [(''file'', Nil)])))
                        (Inr [(''file'', [''variables.file''])])
      in OperationsString (snd (ShouldBind c)) \<noteq> []
       \<and> MapString (snd (ShouldBind c)) \<noteq> []
       \<and> engine_variables (HandlerFunc rt (New () []) c) = [Map [(''file'', File 7)]]
       \<and> set_all File (Map [(''file'', Nil)]) [(7, [''variables.file''])]
         = Done (Map [(''file'', File 7)]))"
proof -
  have a: "OperationsString (snd (ShouldBind (multipart_request ''operations'' ''map'' [] []))) \<noteq> []"
    and b: "MapString (snd (ShouldBind (multipart_request ''operations'' ''map'' [] []))) \<noteq> []"
    and a': "OperationsString (snd (ShouldBind
          (multipart_request ''operations'' ''map'' [] [(''file'', 7)]))) \<noteq> []"
    and b': "MapString (snd (ShouldBind
          (multipart_request ''operations'' ''map'' [] [(''file'', 7)]))) \<noteq> []"
    by (simp_all add: multipart_request_def zero_request_def)
  from failed_assembly_exposes_nothing[OF refl a b,
      of "decoding (Inr (upload_operations (Map [(''file'', Nil)])))
            (Inr [(''file'', [''variables.file''])])"
         "upload_operations (Map [(''file'', Nil)])" "[(''file'', [''variables.file''])]"
         "''file''" "[''variables.file'']" "''http: no such file''" "New () []"]
    failed_assembly_exposes_nothing[OF refl a' b',
      of "decoding (Inr (upload_operations (Map [(''file'', Nil)])))
            (Inr [(''file'', [''variables.file''])])" _ _ _ _ _ "New () []"]
    a b a' b'
  show ?thesis
    by (simp add: fixture_defs handler_defs set_leaf_def eval_defs Let_def)
qed

text \<open>
  C3.  The code does not do what the claim says.  The upload map sends field \<^verbatim>\<open>a\<close> to
  \<^verbatim>\<open>variables.x\<close> and field \<^verbatim>\<open>b\<close> to \<^verbatim>\<open>variables.y\<close>, and the form gives both fields the
  text \<^verbatim>\<open>same\<close>.  The handler files the paths of a text field under the field's value,
  so the second field visited replaces the paths of the first: the engine is given
  variables in which only one of the two positions is filled, whichever order the map is
  visited in.
\<close>

theorem equal_values_collide:
  "engine_variables
     (HandlerFunc
        (decoding (Inr (upload_operations (Map [(''x'', Nil), (''y'', Nil)])))
                  (Inr [(''a'', [''variables.x'']), (''b'', [''variables.y''])]))
        (New () [])
        (multipart_request ''operations'' ''map'' [(''a'', ''same''), (''b'', ''same'')] []))
   = [Map [(''x'', Nil), (''y'', String ''same'')]]
   \<and> engine_variables
     (HandlerFunc
        (decoding (Inr (upload_operations (Map [(''x'', Nil), (''y'', Nil)])))
                  (Inr [(''b'', [''variables.y'']), (''a'', [''variables.x''])]))
        (New () [])
        (multipart_request ''operations'' ''map'' [(''a'', ''same''), (''b'', ''same'')] []))
   = [Map [(''x'', String ''same''), (''y'', Nil)]]"
  by (simp add: fixture_defs handler_defs set_leaf_def eval_defs)

text \<open>
  C7.  The code does not do what the claim says.  When binding fails and leaves the
  request structure empty (a JSON body that does not parse), the handler calls
  \<^verbatim>\<open>AbortWithError\<close> with the server-error status and then, having no \<^verbatim>\<open>return\<close>, goes on:
  it runs the context providers, calls the engine with the empty query, and writes the
  engine's result with the success status.
\<close>

theorem bind_failure_goes_on:
  "HandlerFunc rt app
     \<lparr>ShouldBind = (Some err, zero_request), GetPostForm = values, FormFile = files\<rparr>
   = [AbortWithError StatusInternalServerError err,
      Do \<lparr>Params_Schema = Schema app, Params_RequestString = [], Params_OperationName = [],
          Params_VariableValues = NilMap,
          Params_Context = run_providers (ContextProviders app)
            (Some \<lparr>ShouldBind = (Some err, zero_request), GetPostForm = values, FormFile = files\<rparr>)
            Background\<rparr>,
      JSON StatusOK (Result (graphql_Do rt
         \<lparr>Params_Schema = Schema app, Params_RequestString = [], Params_OperationName = [],
          Params_VariableValues = NilMap,
          Params_Context = run_providers (ContextProviders app)
            (Some \<lparr>ShouldBind = (Some err, zero_request), GetPostForm = values, FormFile = files\<rparr>)
            Background\<rparr>))]"
  by (simp add: HandlerFunc_def bind_events_def execute_def zero_request_def Let_def)

end
